theory Spec2Isabelle
  imports Complex_Main "HOL-Library.Sublist"
begin

section \<open>JavaScript strings\<close>

text \<open>
  A JavaScript string is a sequence of UTF-16 code units. The model is over the code units
  U+0000 to U+00FF (Basic Latin and Latin-1 Supplement), one \<^typ>\<open>char\<close> each, which
  covers the connector lexicon of \<^verbatim>\<open>detector.js\<close> and ordinary French text; on this range
  \<^verbatim>\<open>length\<close>, \<^verbatim>\<open>toLowerCase\<close>, \<^verbatim>\<open>trim\<close>, \<^verbatim>\<open>includes\<close> and \<^verbatim>\<open>split\<close> are as below.
\<close>

definition isWhiteSpace :: "char \<Rightarrow> bool" where
  \<comment> \<open>the class \<^verbatim>\<open>\s\<close>, also what \<^verbatim>\<open>trim\<close> strips: TAB, LF, VT, FF, CR, SPACE, NBSP\<close>
  "isWhiteSpace c \<longleftrightarrow>
     c \<in> {CHR 0x09, CHR 0x0A, CHR 0x0B, CHR 0x0C, CHR 0x0D, CHR 0x20, CHR 0xA0}"

definition isTerminator :: "char \<Rightarrow> bool" where
  \<comment> \<open>the class \<^verbatim>\<open>[.!?]\<close>\<close>
  "isTerminator c \<longleftrightarrow> c \<in> {CHR ''.'', CHR ''!'', CHR ''?''}"

definition lowerChar :: "char \<Rightarrow> char" where
  \<comment> \<open>A to Z, and U+00C0 to U+00DE except the multiplication sign U+00D7, move up by 32\<close>
  "lowerChar c =
     (let n = (of_char c :: nat)
      in if n = 215 then c
         else if (65 \<le> n \<and> n \<le> 90) \<or> (192 \<le> n \<and> n \<le> 222)
         then char_of (n + 32) else c)"

definition toLowerCase :: "string \<Rightarrow> string" where
  "toLowerCase s = map lowerChar s"

definition trim :: "string \<Rightarrow> string" where
  "trim s = rev (dropWhile isWhiteSpace (rev (dropWhile isWhiteSpace s)))"

fun includesStr :: "string \<Rightarrow> string \<Rightarrow> bool" where
  \<comment> \<open>\<^verbatim>\<open>s.includes(p)\<close>: \<^verbatim>\<open>p\<close> occurs in \<^verbatim>\<open>s\<close> at some position\<close>
  "includesStr [] p = (p = [])"
| "includesStr (c # cs) p = (prefix p (c # cs) \<or> includesStr cs p)"

text \<open>
  \<^verbatim>\<open>s.split(/[...]+/)\<close> for a character class: every maximal run of class members is one
  separator; the pieces before the first run and after the last one are kept even when empty,
  and the empty string gives one empty piece. \<open>cur\<close> is the piece being read.
\<close>

function splitRuns :: "(char \<Rightarrow> bool) \<Rightarrow> string \<Rightarrow> string \<Rightarrow> string list" where
  "splitRuns sep cur [] = [cur]"
| "splitRuns sep cur (c # cs) =
     (if sep c then cur # splitRuns sep [] (dropWhile sep cs)
      else splitRuns sep (cur @ [c]) cs)"
  by pat_completeness auto
termination
  by (relation "measure (\<lambda>(sep, cur, s). length s)")
     (auto simp: length_dropWhile_le le_imp_less_Suc)

definition splitWhitespace :: "string \<Rightarrow> string list" where
  \<comment> \<open>\<^verbatim>\<open>s.split(/\s+/)\<close>\<close>
  "splitWhitespace s = splitRuns isWhiteSpace [] s"

definition splitTerminators :: "string \<Rightarrow> string list" where
  \<comment> \<open>\<^verbatim>\<open>s.split(/[.!?]+/)\<close>\<close>
  "splitTerminators s = splitRuns isTerminator [] s"

section \<open>JavaScript numbers\<close>

text \<open>
  The only non-integer arithmetic of the analyzer is the division of two array lengths,
  compared with a constant. A quotient of naturals is kept exact, with the two special
  values that a zero divisor gives. For operands below \<open>2 ^ 32\<close> (array lengths) the double
  that JavaScript computes compares with 25, \<open>n / 4\<close>, 0.7 and 0.4 as the exact quotient does.
\<close>

datatype jsnum = Num rat | Infinity | NaN

definition jsdiv :: "nat \<Rightarrow> nat \<Rightarrow> jsnum" where
  "jsdiv a b = (if b = 0 then (if a = 0 then NaN else Infinity)
                else Num (of_nat a / of_nat b))"

fun gt :: "jsnum \<Rightarrow> rat \<Rightarrow> bool" where
  \<comment> \<open>\<^verbatim>\<open>x > c\<close>\<close>
  "gt (Num r) c = (c < r)"
| "gt Infinity c = True"
| "gt NaN c = False"

fun lt :: "jsnum \<Rightarrow> rat \<Rightarrow> bool" where
  \<comment> \<open>\<^verbatim>\<open>x < c\<close>\<close>
  "lt (Num r) c = (r < c)"
| "lt Infinity c = False"
| "lt NaN c = False"

fun orZero :: "jsnum \<Rightarrow> jsnum" where
  \<comment> \<open>\<^verbatim>\<open>x || 0\<close>: NaN and 0 are falsy\<close>
  "orZero NaN = Num 0"
| "orZero Infinity = Infinity"
| "orZero (Num r) = (if r = 0 then Num 0 else Num r)"

section \<open>Word frequency tables\<close>

text \<open>
  The tables are object literals used as dictionaries: own properties in insertion order.
  An object literal inherits \<^verbatim>\<open>constructor\<close> and \<^verbatim>\<open>__proto__\<close> from \<^verbatim>\<open>Object.prototype\<close>
  (the other inherited names have a capital letter, and every key here is lower-cased or
  counted by its lower-cased form): reading them gives an object, so \<^verbatim>\<open>(t[w] || 0) + 1\<close> is a
  string. The assignment to \<^verbatim>\<open>__proto__\<close> is ignored; the one to \<^verbatim>\<open>constructor\<close> stores the
  string, and adding 1 to it again gives a string.
\<close>

datatype jsval = Count nat | Text

definition increment :: "(string \<times> jsval) list \<Rightarrow> string \<Rightarrow> (string \<times> jsval) list" where
  \<comment> \<open>\<^verbatim>\<open>t[w] = (t[w] || 0) + 1\<close>\<close>
  "increment t w =
     (if w = ''__proto__'' then t
      else case map_of t w of
             Some (Count n) \<Rightarrow> map (\<lambda>(k, v). if k = w then (k, Count (n + 1)) else (k, v)) t
           | Some Text \<Rightarrow> t
           | None \<Rightarrow> t @ [(w, if w = ''constructor'' then Text else Count 1)])"

definition isDigit :: "char \<Rightarrow> bool" where
  "isDigit c \<longleftrightarrow> 48 \<le> (of_char c :: nat) \<and> (of_char c :: nat) \<le> 57"

definition digitsValue :: "string \<Rightarrow> int" where
  "digitsValue k = foldl (\<lambda>n c. 10 * n + ((of_char c :: int) - 48)) 0 k"

definition isArrayIndex :: "string \<Rightarrow> bool" where
  \<comment> \<open>a canonical numeric string (digits, no leading zero) below \<open>2 ^ 32 - 1 = 4294967295\<close>\<close>
  "isArrayIndex k \<longleftrightarrow>
     0 < length k \<and> list_all isDigit k \<and> (k = ''0'' \<or> 49 \<le> (of_char (hd k) :: nat)) \<and>
     digitsValue k < 4294967295"

definition entries :: "(string \<times> 'v) list \<Rightarrow> (string \<times> 'v) list" where
  \<comment> \<open>\<^verbatim>\<open>Object.entries\<close>: array-index keys in ascending order, then the others as inserted\<close>
  "entries t =
     sort_key (\<lambda>(k, v). digitsValue k) (filter (\<lambda>(k, v). isArrayIndex k) t) @
     filter (\<lambda>(k, v). \<not> isArrayIndex k) t"

fun gt3 :: "jsval \<Rightarrow> bool" where
  \<comment> \<open>\<^verbatim>\<open>count > 3\<close>; a string that is no numeral converts to NaN\<close>
  "gt3 (Count n) = (3 < n)"
| "gt3 Text = False"

section \<open>Data model\<close>

record vocabularyStats =
  uniqueWords :: nat
  totalWords :: nat
  avgWordLength :: jsnum
  commonWords :: "(string \<times> jsval) list"

record typeCounts =
  simple :: nat
  compound :: nat
  complex :: nat

record sentenceStats =
  lengths :: "nat list"
  types :: typeCounts
  transitions :: "string list"

record metrics =
  vocabularyStats :: vocabularyStats
  sentenceStats :: sentenceStats

datatype kind = Structure | Vocabulary | Coherence

datatype severity = High | Medium | Low

text \<open>
  A marker's message is one of five templates. The text itself is not modelled: the
  constructor names the template, with the words that the second one lists.
\<close>

datatype message =
    LongSentences
  | RepeatedWords "(string \<times> jsval) list"
  | MissingTransitions
  | SimpleStructure
  | PoorVocabulary

record marker =
  mtype :: kind
  message :: message
  severity :: severity

record analysis =
  markers :: "marker list"
  score :: nat

text \<open>
  \<^verbatim>\<open>details\<close> is either the fixed advice or the HTML report that \<^verbatim>\<open>formatDetailsBase\<close>
  renders from the markers; the rendering is left out and the report stands for its markers.
\<close>

datatype details = Advice string | Report "marker list"

record result =
  aiScore :: nat
  details :: details
  metrics :: metrics

record TextAnalyzer =
  currentText :: string
  this_metrics :: metrics

section \<open>The analyzer\<close>

definition COMMON_TRANSITIONS :: "string list" where
  "COMMON_TRANSITIONS =
     [''premi'' @ [CHR 0xE8] @ ''rement'', ''deuxi'' @ [CHR 0xE8] @ ''mement'', ''ensuite'',
      ''puis'', ''enfin'',
      ''cependant'', ''n'' @ [CHR 0xE9] @ ''anmoins'', ''toutefois'', ''mais'', ''or'',
      ''donc'', ''ainsi'', ''par cons'' @ [CHR 0xE9] @ ''quent'', ''en effet'', ''car'',
      ''de plus'', ''en outre'', [CHR 0xE9] @ ''galement'', ''aussi'', ''par ailleurs'']"

definition getEmptyMetrics :: metrics where
  "getEmptyMetrics =
     \<lparr>vocabularyStats =
        \<lparr>uniqueWords = 0, totalWords = 0, avgWordLength = Num 0, commonWords = []\<rparr>,
      sentenceStats =
        \<lparr>lengths = [],
         types = \<lparr>simple = 0, compound = 0, complex = 0\<rparr>,
         transitions = []\<rparr>\<rparr>"

definition newTextAnalyzer :: TextAnalyzer where
  \<comment> \<open>the constructor; the \<^verbatim>\<open>cache\<close> field is never read or written\<close>
  "newTextAnalyzer = \<lparr>currentText = [], this_metrics = getEmptyMetrics\<rparr>"

definition advice :: string where
  \<comment> \<open>\<^verbatim>\<open>"Veuillez entrer du texte (a grave) analyser."\<close>\<close>
  "advice = ''Veuillez entrer du texte '' @ [CHR 0xE0] @ '' analyser.''"

definition findTransitions :: "string \<Rightarrow> string list" where
  "findTransitions text =
     filter (\<lambda>transition. includesStr (toLowerCase text) (toLowerCase transition))
       COMMON_TRANSITIONS"

subsection \<open>Vocabulary\<close>

text \<open>
  \<^verbatim>\<open>sort((a, b) => b[1] - a[1])\<close> is stable: an entry moves behind another one only when its
  count is smaller. A difference with a string operand is NaN, which the sort takes for a
  tie; with such an entry in the table the comparison is not an order and ECMAScript leaves
  the result to the implementation, here the one of a stable insertion sort.
\<close>

fun countBelow :: "jsval \<Rightarrow> jsval \<Rightarrow> bool" where
  "countBelow (Count x) (Count y) = (x < y)"
| "countBelow (Count x) Text = False"
| "countBelow Text v = False"

fun insertEntry :: "string \<times> jsval \<Rightarrow> (string \<times> jsval) list \<Rightarrow> (string \<times> jsval) list" where
  "insertEntry e [] = [e]"
| "insertEntry e (f # fs) =
     (if countBelow (snd e) (snd f) then f # insertEntry e fs else e # f # fs)"

definition sortByCount :: "(string \<times> jsval) list \<Rightarrow> (string \<times> jsval) list" where
  "sortByCount es = foldr insertEntry es []"

definition getMostCommonWords :: "string list \<Rightarrow> nat \<Rightarrow> (string \<times> jsval) list" where
  "getMostCommonWords words limit =
     (let frequency =
            foldl (\<lambda>t word. if 3 < length word then increment t (toLowerCase word) else t)
              [] words
      in take limit (sortByCount (entries frequency)))"

definition analyzeVocabularyStats :: "string \<Rightarrow> vocabularyStats" where
  "analyzeVocabularyStats text =
     (let words = filter (\<lambda>w. 0 < length w) (splitWhitespace text);
          uniqueWords = remdups (map toLowerCase words);
          wordLengths = map length words
      in \<lparr>uniqueWords = length uniqueWords,
          totalWords = length words,
          avgWordLength = orZero (jsdiv (sum_list wordLengths) (length words)),
          commonWords = getMostCommonWords words 20\<rparr>)"

subsection \<open>Sentences\<close>

definition sentencesOf :: "string \<Rightarrow> string list" where
  \<comment> \<open>\<^verbatim>\<open>text.split(/[.!?]+/).filter(s => s.trim().length > 0)\<close>\<close>
  "sentencesOf text = filter (\<lambda>s. 0 < length (trim s)) (splitTerminators text)"

definition countSentence :: "typeCounts \<Rightarrow> string \<Rightarrow> typeCounts" where
  \<comment> \<open>the body of the \<^verbatim>\<open>forEach\<close> over the sentences\<close>
  "countSentence t sentence =
     (if includesStr sentence '','' \<and>
         (includesStr sentence ''qui'' \<or> includesStr sentence ''que'')
      then t\<lparr>complex := complex t + 1\<rparr>
      else if includesStr sentence '','' \<or> includesStr sentence ''et'' \<or>
              includesStr sentence ''ou''
      then t\<lparr>compound := compound t + 1\<rparr>
      else t\<lparr>simple := simple t + 1\<rparr>)"

definition analyzeSentenceStructure :: "string \<Rightarrow> sentenceStats" where
  "analyzeSentenceStructure text =
     (let sentences = sentencesOf text
      in \<lparr>lengths = map (\<lambda>s. length (splitWhitespace s)) sentences,
          types = foldl countSentence \<lparr>simple = 0, compound = 0, complex = 0\<rparr> sentences,
          transitions = findTransitions text\<rparr>)"

subsection \<open>Score and markers\<close>

definition flag :: "analysis \<Rightarrow> marker \<Rightarrow> nat \<Rightarrow> analysis" where
  \<comment> \<open>\<^verbatim>\<open>markers.push(m); score += d\<close>\<close>
  "flag a m d = a\<lparr>markers := markers a @ [m], score := score a + d\<rparr>"

definition performDetailedAnalysis :: "metrics \<Rightarrow> string \<Rightarrow> analysis" where
  \<comment> \<open>\<open>m\<close> is \<^verbatim>\<open>this.metrics\<close>\<close>
  "performDetailedAnalysis m text =
     (let sentences = sentencesOf text;
          words = splitWhitespace (toLowerCase text);
          a0 = \<lparr>markers = [], score = 0\<rparr>;
          avgSentenceLength = jsdiv (length words) (length sentences);
          a1 = (if gt avgSentenceLength 25
                then flag a0 \<lparr>mtype = Structure, message = LongSentences, severity = High\<rparr> 15
                else a0);
          wordFrequency =
            foldl (\<lambda>t word. if 3 < length word then increment t word else t) [] words;
          repeatedWords = filter (\<lambda>(word, count). gt3 count) (entries wordFrequency);
          a2 = (if 0 < length repeatedWords
                then flag a1 \<lparr>mtype = Vocabulary,
                              message = RepeatedWords (take 5 repeatedWords),
                              severity = Medium\<rparr> 0
                else a1);
          transitionCount = length (transitions (sentenceStats m));
          a3 = (if lt (Num (of_nat transitionCount)) (of_nat (length sentences) / 4)
                then flag a2 \<lparr>mtype = Coherence, message = MissingTransitions,
                              severity = Medium\<rparr> 10
                else a2);
          t = types (sentenceStats m);
          total = simple t + compound t + complex t;
          a4 = (if gt (jsdiv (simple t) total) (7 / 10)
                then flag a3 \<lparr>mtype = Structure, message = SimpleStructure,
                              severity = Medium\<rparr> 10
                else a3);
          diversityRatio =
            jsdiv (uniqueWords (vocabularyStats m)) (totalWords (vocabularyStats m));
          a5 = (if lt diversityRatio (4 / 10)
                then flag a4 \<lparr>mtype = Vocabulary, message = PoorVocabulary,
                              severity = High\<rparr> 20
                else a4)
      in a5)"

definition analyzeAIContent :: "metrics \<Rightarrow> string \<Rightarrow> (nat \<times> marker list) \<times> metrics" where
  \<comment> \<open>takes \<^verbatim>\<open>this.metrics\<close> and returns it updated, beside \<^verbatim>\<open>[score, aiMarkers]\<close>\<close>
  "analyzeAIContent m text =
     (let m1 = m\<lparr>vocabularyStats := analyzeVocabularyStats text\<rparr>;
          m2 = m1\<lparr>sentenceStats := analyzeSentenceStructure text\<rparr>;
          analysis = performDetailedAnalysis m2 text
      in ((0 + score analysis, [] @ markers analysis), m2))"

definition analyzeText :: "TextAnalyzer \<Rightarrow> string \<Rightarrow> result \<times> TextAnalyzer" where
  \<comment> \<open>the charts that \<^verbatim>\<open>updateCharts\<close> redraws are outside the model\<close>
  "analyzeText this text =
     (let this1 = this\<lparr>currentText := text\<rparr>
      in if trim text = []
         then (\<lparr>aiScore = 0, details = Advice advice, metrics = getEmptyMetrics\<rparr>, this1)
         else
           (let this2 = this1\<lparr>this_metrics := getEmptyMetrics\<rparr>;
                (r, m) = analyzeAIContent (this_metrics this2) text;
                this3 = this2\<lparr>this_metrics := m\<rparr>
            in (\<lparr>aiScore = fst r, details = Report (snd r), metrics = this_metrics this3\<rparr>,
                this3)))"

definition analyze :: "string \<Rightarrow> result" where
  \<comment> \<open>\<^verbatim>\<open>window.analyzeText\<close>: a new analyzer for every call\<close>
  "analyze text = fst (analyzeText newTextAnalyzer text)"

section \<open>Properties of the building blocks\<close>

lemma includesStr_iff: "includesStr s p \<longleftrightarrow> (\<exists>u v. s = u @ p @ v)"
proof (induction s)
  case Nil
  show ?case by simp
next
  case (Cons c cs)
  show ?case
  proof
    assume "includesStr (c # cs) p"
    then consider "prefix p (c # cs)" | "includesStr cs p" by auto
    then show "\<exists>u v. c # cs = u @ p @ v"
    proof cases
      case 1
      then obtain v where "c # cs = p @ v" by (auto simp: prefix_def)
      then have "c # cs = [] @ p @ v" by simp
      then show ?thesis by blast
    next
      case 2
      with Cons.IH obtain u v where "cs = u @ p @ v" by blast
      then have "c # cs = (c # u) @ p @ v" by simp
      then show ?thesis by blast
    qed
  next
    assume "\<exists>u v. c # cs = u @ p @ v"
    then obtain u v where uv: "c # cs = u @ p @ v" by blast
    show "includesStr (c # cs) p"
    proof (cases u)
      case Nil
      with uv have "prefix p (c # cs)" by (simp add: prefix_def)
      then show ?thesis by simp
    next
      case (Cons d u')
      with uv have "cs = u' @ p @ v" by simp
      with Cons.IH have "includesStr cs p" by blast
      then show ?thesis by simp
    qed
  qed
qed

lemma lower_segment:
  "(\<exists>u v. toLowerCase text = u @ p @ v) \<longleftrightarrow>
   (\<exists>u w v. text = u @ w @ v \<and> toLowerCase w = p)"
proof
  assume "\<exists>u v. toLowerCase text = u @ p @ v"
  then obtain u v where uv: "map lowerChar text = u @ p @ v"
    unfolding toLowerCase_def by blast
  define w where "w = take (length p) (drop (length u) text)"
  have split: "text = take (length u) text @ w @ drop (length p) (drop (length u) text)"
    unfolding w_def by (simp only: append_take_drop_id)
  have "map lowerChar w = take (length p) (drop (length u) (map lowerChar text))"
    unfolding w_def by (simp add: take_map drop_map)
  also have "\<dots> = p" unfolding uv by simp
  finally have "toLowerCase w = p" unfolding toLowerCase_def .
  with split show "\<exists>u w v. text = u @ w @ v \<and> toLowerCase w = p" by blast
next
  assume "\<exists>u w v. text = u @ w @ v \<and> toLowerCase w = p"
  then obtain u w v where "text = u @ w @ v" "toLowerCase w = p" by blast
  then have "toLowerCase text = toLowerCase u @ p @ toLowerCase v"
    unfolding toLowerCase_def by simp
  then show "\<exists>u v. toLowerCase text = u @ p @ v" by blast
qed

lemma lexicon_length: "length COMMON_TRANSITIONS = 20"
  by (simp add: COMMON_TRANSITIONS_def)

lemma lexicon_distinct: "distinct COMMON_TRANSITIONS"
  by (simp add: COMMON_TRANSITIONS_def)

lemma countSentence_total:
  "simple (countSentence t s) + compound (countSentence t s) + complex (countSentence t s) =
   simple t + compound t + complex t + 1"
  by (simp add: countSentence_def)

lemma foldl_countSentence_total:
  "simple (foldl countSentence t ss) + compound (foldl countSentence t ss) +
   complex (foldl countSentence t ss) = simple t + compound t + complex t + length ss"
proof (induction ss arbitrary: t)
  case Nil
  show ?case by simp
next
  case (Cons s ss)
  show ?case by (simp add: Cons.IH countSentence_total)
qed

lemma analyzeText_nonempty:
  "trim text \<noteq> [] \<Longrightarrow>
   fst (analyzeText this text) =
     \<lparr>aiScore = score (performDetailedAnalysis
                  \<lparr>vocabularyStats = analyzeVocabularyStats text,
                   sentenceStats = analyzeSentenceStructure text\<rparr> text),
      details = Report (markers (performDetailedAnalysis
                  \<lparr>vocabularyStats = analyzeVocabularyStats text,
                   sentenceStats = analyzeSentenceStructure text\<rparr> text)),
      metrics = \<lparr>vocabularyStats = analyzeVocabularyStats text,
                 sentenceStats = analyzeSentenceStructure text\<rparr>\<rparr>"
  by (simp add: analyzeText_def analyzeAIContent_def Let_def getEmptyMetrics_def)

lemma analyzeText_empty:
  "trim text = [] \<Longrightarrow>
   fst (analyzeText this text) =
     \<lparr>aiScore = 0, details = Advice advice, metrics = getEmptyMetrics\<rparr>"
  by (simp add: analyzeText_def)

lemma trim_empty_iff: "trim text = [] \<longleftrightarrow> list_all isWhiteSpace text"
proof
  assume "trim text = []"
  then have all: "\<forall>c\<in>set (dropWhile isWhiteSpace text). isWhiteSpace c"
    by (simp add: trim_def dropWhile_eq_Nil_conv)
  have "dropWhile isWhiteSpace text = []"
  proof (rule ccontr)
    assume ne: "dropWhile isWhiteSpace text \<noteq> []"
    then have "\<not> isWhiteSpace (hd (dropWhile isWhiteSpace text))" by (rule hd_dropWhile)
    moreover from ne have "hd (dropWhile isWhiteSpace text) \<in> set (dropWhile isWhiteSpace text)"
      by (rule hd_in_set)
    ultimately show False using all by blast
  qed
  then show "list_all isWhiteSpace text"
    by (simp add: dropWhile_eq_Nil_conv list_all_iff)
next
  assume "list_all isWhiteSpace text"
  then have blank: "dropWhile isWhiteSpace text = []"
    by (simp add: dropWhile_eq_Nil_conv list_all_iff)
  show "trim text = []" unfolding trim_def blank by simp
qed

lemma performDetailedAnalysis_score:
  "score (performDetailedAnalysis m text) =
     (if gt (jsdiv (length (splitWhitespace (toLowerCase text))) (length (sentencesOf text))) 25
      then 15 else 0) +
     (if lt (Num (of_nat (length (transitions (sentenceStats m)))))
            (of_nat (length (sentencesOf text)) / 4)
      then 10 else 0) +
     (if gt (jsdiv (simple (types (sentenceStats m)))
                   (simple (types (sentenceStats m)) + compound (types (sentenceStats m)) +
                    complex (types (sentenceStats m)))) (7 / 10)
      then 10 else 0) +
     (if lt (jsdiv (uniqueWords (vocabularyStats m)) (totalWords (vocabularyStats m))) (4 / 10)
      then 20 else 0)"
  by (simp add: performDetailedAnalysis_def Let_def flag_def)

lemma splitRuns_nonempty: "splitRuns sep cur s \<noteq> []"
  by (induction sep cur s rule: splitRuns.induct) simp_all

lemma zero_sentences_score:
  "sentencesOf text = [] \<Longrightarrow> 15 \<le> score (performDetailedAnalysis m text)"
proof -
  assume z: "sentencesOf text = []"
  have "0 < length (splitWhitespace (toLowerCase text))"
    unfolding splitWhitespace_def using splitRuns_nonempty by simp
  then have "jsdiv (length (splitWhitespace (toLowerCase text))) (length (sentencesOf text))
               = Infinity"
    by (simp add: jsdiv_def z)
  then show ?thesis by (simp add: performDetailedAnalysis_score)
qed

section \<open>Claims\<close>

text \<open>
  Claim C1: a text that is not blank but has no sentence once it is split at runs of
  \<^verbatim>\<open>.\<close>, \<^verbatim>\<open>!\<close>, \<^verbatim>\<open>?\<close> gets no structure or coherence marker and no score from those checks.
  The code has no such guard. For \<^verbatim>\<open>"..."\<close> the word list has one field and the sentence
  list none, the quotient is \<^verbatim>\<open>1 / 0 = Infinity\<close>, which is above 25: the structure marker
  of severity high is pushed and the score is 15. The simple-sentence fraction is
  \<^verbatim>\<open>0 / 0 = NaN\<close>, which compares false, and the coherence test \<^verbatim>\<open>0 < 0\<close> is false.
\<close>

theorem zero_sentences_flagged_long:
  "(let text = ''...''; r = analyze text; t = types (sentenceStats (metrics r))
    in trim text \<noteq> [] \<and>
       sentencesOf text = [] \<and>
       jsdiv (length (splitWhitespace (toLowerCase text))) (length (sentencesOf text)) = Infinity \<and>
       jsdiv (simple t) (simple t + compound t + complex t) = NaN \<and>
       aiScore r = 15 \<and>
       details r = Report [\<lparr>mtype = Structure, message = LongSentences, severity = High\<rparr>])"
  unfolding Let_def by (intro conjI; code_simp)

text \<open>
  Claim C2: for a text that is not blank, the score is the sum of the deltas of the conditions
  of the scoring table that hold, each with its marker, so that it is 0 when nothing fires.
  The code differs where its own average differs from words per sentence. For the 25 distinct
  words below, in one sentence that contains \<^verbatim>\<open>ou\<close> and the connector \<^verbatim>\<open>or\<close>, followed by a
  line feed, no condition of the table holds: 25 words in 1 sentence, 1 connector found,
  no simple sentence, 25 distinct words out of 25, no word longer than 3 letters. The code
  returns the score 15 and the marker for long sentences.
\<close>

theorem score_without_condition:
  "(let text = ''or ou a b c d e f g h i j k l m n o p q r s t u v w'' @ [CHR 0x0A];
        r = analyze text; v = vocabularyStats (metrics r); s = sentenceStats (metrics r)
    in trim text \<noteq> [] \<and>
       metrics r =
         \<lparr>vocabularyStats =
            \<lparr>uniqueWords = 25, totalWords = 25, avgWordLength = Num (27 / 25),
             commonWords = []\<rparr>,
          sentenceStats =
            \<lparr>lengths = [26], types = \<lparr>simple = 0, compound = 1, complex = 0\<rparr>,
             transitions = [''or'']\<rparr>\<rparr> \<and>
       length (sentencesOf text) = 1 \<and>
       \<not> gt (jsdiv (totalWords v) (length (sentencesOf text))) 25 \<and>
       \<not> lt (Num (of_nat (length (transitions s)))) (of_nat (length (sentencesOf text)) / 4) \<and>
       \<not> gt (jsdiv (simple (types s))
                  (simple (types s) + compound (types s) + complex (types s))) (7 / 10) \<and>
       \<not> lt (jsdiv (uniqueWords v) (totalWords v)) (4 / 10) \<and>
       list_all (\<lambda>w. length w \<le> 3) (splitWhitespace (toLowerCase text)) \<and>
       aiScore r = 15 \<and>
       details r = Report [\<lparr>mtype = Structure, message = LongSentences, severity = High\<rparr>])"
  unfolding Let_def by (intro conjI; code_simp)

text \<open>
  Claim C3: with at least one sentence, the average that the scorer compares with 25 is the
  number of non-empty tokens divided by the number of sentences. The scorer divides the
  number of fields of \<^verbatim>\<open>text.toLowerCase().split(/\s+/)\<close>, which has an empty field for
  white space at the start and at the end of the text. For a space followed by \<^verbatim>\<open>a\<close>, 25
  times, there are 25 tokens and 1 sentence, a quotient of 25 that is not above 25; the
  scorer computes 26 and pushes the marker for long sentences with its 15 points.
\<close>

theorem average_counts_empty_field:
  "(let text = concat (replicate 25 '' a''); r = analyze text
    in trim text \<noteq> [] \<and>
       length (sentencesOf text) = 1 \<and>
       totalWords (vocabularyStats (metrics r)) = 25 \<and>
       \<not> gt (jsdiv (totalWords (vocabularyStats (metrics r))) (length (sentencesOf text))) 25 \<and>
       jsdiv (length (splitWhitespace (toLowerCase text))) (length (sentencesOf text)) = Num 26 \<and>
       aiScore r = 55 \<and>
       details r =
         Report [\<lparr>mtype = Structure, message = LongSentences, severity = High\<rparr>,
                 \<lparr>mtype = Coherence, message = MissingTransitions, severity = Medium\<rparr>,
                 \<lparr>mtype = Structure, message = SimpleStructure, severity = Medium\<rparr>,
                 \<lparr>mtype = Vocabulary, message = PoorVocabulary, severity = High\<rparr>])"
  unfolding Let_def by (intro conjI; code_simp)

text \<open>
  Claim C4: for an empty or blank text, \<^verbatim>\<open>analyzeText\<close> returns at once: score 0, the fixed
  advice as details (so no marker), and fresh empty metrics with every count zero and every
  list empty. The pipeline does not run: \<^verbatim>\<open>this.metrics\<close> is left as it was.
\<close>

theorem analyzeText_blank_input:
  "list_all isWhiteSpace text \<Longrightarrow>
   fst (analyzeText this text) =
     \<lparr>aiScore = 0, details = Advice advice,
      metrics =
        \<lparr>vocabularyStats =
           \<lparr>uniqueWords = 0, totalWords = 0, avgWordLength = Num 0, commonWords = []\<rparr>,
         sentenceStats =
           \<lparr>lengths = [], types = \<lparr>simple = 0, compound = 0, complex = 0\<rparr>,
            transitions = []\<rparr>\<rparr>\<rparr>
   \<and> this_metrics (snd (analyzeText this text)) = this_metrics this"
  by (simp add: analyzeText_def trim_empty_iff getEmptyMetrics_def)

theorem analyzeText_blank_input_witness:
  "list_all isWhiteSpace [CHR 0x20, CHR 0x09, CHR 0x0A] \<and>
   fst (analyzeText newTextAnalyzer [CHR 0x20, CHR 0x09, CHR 0x0A]) =
     \<lparr>aiScore = 0, details = Advice advice,
      metrics =
        \<lparr>vocabularyStats =
           \<lparr>uniqueWords = 0, totalWords = 0, avgWordLength = Num 0, commonWords = []\<rparr>,
         sentenceStats =
           \<lparr>lengths = [], types = \<lparr>simple = 0, compound = 0, complex = 0\<rparr>,
            transitions = []\<rparr>\<rparr>\<rparr>
   \<and> this_metrics (snd (analyzeText newTextAnalyzer [CHR 0x20, CHR 0x09, CHR 0x0A])) =
       this_metrics newTextAnalyzer"
proof -
  have h: "list_all isWhiteSpace [CHR 0x20, CHR 0x09, CHR 0x0A]"
    by (simp add: isWhiteSpace_def)
  show ?thesis
    using h analyzeText_blank_input [OF h, of newTextAnalyzer] by simp
qed

text \<open>
  Claim C5: every sentence adds one to exactly one counter, by this precedence: complex when
  it has a comma and has \<^verbatim>\<open>qui\<close> or \<^verbatim>\<open>que\<close> somewhere in it; otherwise compound when it has a
  comma, \<^verbatim>\<open>et\<close> or \<^verbatim>\<open>ou\<close> somewhere in it; otherwise simple. The search is for the exact
  letters at any position, inside longer words too. The three sentences of the specification
  are complex, compound and simple; \<^verbatim>\<open>Qui\<close> with a capital does not count, and the \<^verbatim>\<open>que\<close>
  inside \<^verbatim>\<open>Quelques\<close> does.
\<close>

theorem countSentence_precedence:
  "countSentence t s =
     (if (\<exists>u v. s = u @ '','' @ v) \<and>
         ((\<exists>u v. s = u @ ''qui'' @ v) \<or> (\<exists>u v. s = u @ ''que'' @ v))
      then t\<lparr>complex := complex t + 1\<rparr>
      else if (\<exists>u v. s = u @ '','' @ v) \<or> (\<exists>u v. s = u @ ''et'' @ v) \<or>
              (\<exists>u v. s = u @ ''ou'' @ v)
      then t\<lparr>compound := compound t + 1\<rparr>
      else t\<lparr>simple := simple t + 1\<rparr>)
   \<and> countSentence \<lparr>simple = 0, compound = 0, complex = 0\<rparr> ''Le chat, qui dort, est mignon.'' =
       \<lparr>simple = 0, compound = 0, complex = 1\<rparr>
   \<and> countSentence \<lparr>simple = 0, compound = 0, complex = 0\<rparr> ''Le chat et le chien jouent'' =
       \<lparr>simple = 0, compound = 1, complex = 0\<rparr>
   \<and> countSentence \<lparr>simple = 0, compound = 0, complex = 0\<rparr> ''Le chat dort'' =
       \<lparr>simple = 1, compound = 0, complex = 0\<rparr>
   \<and> countSentence \<lparr>simple = 0, compound = 0, complex = 0\<rparr> ''Le chat, Qui dort'' =
       \<lparr>simple = 0, compound = 1, complex = 0\<rparr>
   \<and> countSentence \<lparr>simple = 0, compound = 0, complex = 0\<rparr> ''Quelques chats, calmes'' =
       \<lparr>simple = 0, compound = 0, complex = 1\<rparr>"
proof -
  have general: "countSentence t s =
     (if (\<exists>u v. s = u @ '','' @ v) \<and>
         ((\<exists>u v. s = u @ ''qui'' @ v) \<or> (\<exists>u v. s = u @ ''que'' @ v))
      then t\<lparr>complex := complex t + 1\<rparr>
      else if (\<exists>u v. s = u @ '','' @ v) \<or> (\<exists>u v. s = u @ ''et'' @ v) \<or>
              (\<exists>u v. s = u @ ''ou'' @ v)
      then t\<lparr>compound := compound t + 1\<rparr>
      else t\<lparr>simple := simple t + 1\<rparr>)"
    unfolding countSentence_def includesStr_iff ..
  have e1: "countSentence \<lparr>simple = 0, compound = 0, complex = 0\<rparr> ''Le chat, qui dort, est mignon.'' =
       \<lparr>simple = 0, compound = 0, complex = 1\<rparr>"
    by code_simp
  have e2: "countSentence \<lparr>simple = 0, compound = 0, complex = 0\<rparr> ''Le chat et le chien jouent'' =
       \<lparr>simple = 0, compound = 1, complex = 0\<rparr>"
    by code_simp
  have e3: "countSentence \<lparr>simple = 0, compound = 0, complex = 0\<rparr> ''Le chat dort'' =
       \<lparr>simple = 1, compound = 0, complex = 0\<rparr>"
    by code_simp
  have e4: "countSentence \<lparr>simple = 0, compound = 0, complex = 0\<rparr> ''Le chat, Qui dort'' =
       \<lparr>simple = 0, compound = 1, complex = 0\<rparr>"
    by code_simp
  have e5: "countSentence \<lparr>simple = 0, compound = 0, complex = 0\<rparr> ''Quelques chats, calmes'' =
       \<lparr>simple = 0, compound = 0, complex = 1\<rparr>"
    by code_simp
  from general e1 e2 e3 e4 e5 show ?thesis by (intro conjI)
qed

text \<open>
  Claim C6: each sentence is the trimmed segment between two runs of terminators, and its
  entry in \<^verbatim>\<open>lengths\<close> is its number of tokens, with no empty token for white space before
  it. The code keeps the segments as they are cut (it trims only to test for emptiness) and
  counts the fields of \<^verbatim>\<open>split(/\s+/)\<close>: for \<^verbatim>\<open>"A. B"\<close> the second sentence is \<^verbatim>\<open>" B"\<close>, with
  the space, and its length is 2.
\<close>

theorem leading_blank_counted_in_length:
  "(let text = ''A. B''
    in sentencesOf text = [''A'', '' B''] \<and>
       splitWhitespace '' B'' = ['''', ''B''] \<and>
       lengths (sentenceStats (metrics (analyze text))) = [1, 2])"
  unfolding Let_def by (intro conjI; code_simp)

text \<open>
  Claim C7: the transitions found are the entries of the lexicon, in the order of the
  lexicon, that occur in the text without regard to case: some segment of the text, at any
  position, has the same lower-case form as the entry. The lexicon has 20 entries, all
  different, so each is listed at most once.
\<close>

theorem findTransitions_lexicon_order:
  "findTransitions text =
     filter (\<lambda>t. \<exists>u w v. text = u @ w @ v \<and> toLowerCase w = toLowerCase t) COMMON_TRANSITIONS
   \<and> length COMMON_TRANSITIONS = 20
   \<and> distinct COMMON_TRANSITIONS
   \<and> distinct (findTransitions text)
   \<and> subseq (findTransitions text) COMMON_TRANSITIONS"
proof -
  have "findTransitions text =
     filter (\<lambda>t. \<exists>u w v. text = u @ w @ v \<and> toLowerCase w = toLowerCase t) COMMON_TRANSITIONS"
    unfolding findTransitions_def by (simp only: includesStr_iff lower_segment)
  moreover have "distinct (findTransitions text)"
    unfolding findTransitions_def using lexicon_distinct by (rule distinct_filter)
  moreover have "subseq (findTransitions text) COMMON_TRANSITIONS"
    unfolding findTransitions_def by simp
  ultimately show ?thesis using lexicon_length lexicon_distinct by blast
qed

text \<open>
  Claim C8: for a text that is not blank, the three type counts of the result add up to the
  number of sentences, which is also the number of entries of \<^verbatim>\<open>lengths\<close>.
\<close>

theorem typeCounts_sum_sentences:
  "trim text \<noteq> [] \<Longrightarrow>
   (let s = sentenceStats (metrics (fst (analyzeText this text)))
    in simple (types s) + compound (types s) + complex (types s) = length (sentencesOf text)
       \<and> length (lengths s) = length (sentencesOf text))"
  by (simp add: analyzeText_nonempty analyzeSentenceStructure_def Let_def
        foldl_countSentence_total)

theorem typeCounts_sum_sentences_witness:
  "trim ''Il dort. Elle lit, et elle rit! Quoi?'' \<noteq> [] \<and>
   length (sentencesOf ''Il dort. Elle lit, et elle rit! Quoi?'') = 3 \<and>
   (let s = sentenceStats (metrics (fst (analyzeText newTextAnalyzer
              ''Il dort. Elle lit, et elle rit! Quoi?'')))
    in simple (types s) + compound (types s) + complex (types s) =
         length (sentencesOf ''Il dort. Elle lit, et elle rit! Quoi?'')
       \<and> length (lengths s) = length (sentencesOf ''Il dort. Elle lit, et elle rit! Quoi?''))"
proof -
  have h: "trim ''Il dort. Elle lit, et elle rit! Quoi?'' \<noteq> []" by code_simp
  have n: "length (sentencesOf ''Il dort. Elle lit, et elle rit! Quoi?'') = 3" by code_simp
  show ?thesis
    using h n typeCounts_sum_sentences [OF h, of newTextAnalyzer] by simp
qed

text \<open>
  Claim C9: in the vocabulary statistics of every result, the number of unique words is at
  most the total number of words. The first is the number of distinct lower-cased non-empty
  tokens and the second the number of non-empty tokens.
\<close>

theorem uniqueWords_le_totalWords:
  "uniqueWords (vocabularyStats (metrics (fst (analyzeText this text))))
     \<le> totalWords (vocabularyStats (metrics (fst (analyzeText this text))))
   \<and> uniqueWords (analyzeVocabularyStats text) =
       card (toLowerCase ` {w. w \<in> set (splitWhitespace text) \<and> w \<noteq> []})
   \<and> totalWords (analyzeVocabularyStats text) =
       length (filter (\<lambda>w. w \<noteq> []) (splitWhitespace text))"
proof -
  let ?ws = "filter (\<lambda>w. 0 < length w) (splitWhitespace text)"
  have le: "length (remdups (map toLowerCase ?ws)) \<le> length ?ws"
    using length_remdups_leq [of "map toLowerCase ?ws"] by simp
  have u: "uniqueWords (analyzeVocabularyStats text) = length (remdups (map toLowerCase ?ws))"
    and t: "totalWords (analyzeVocabularyStats text) = length ?ws"
    by (simp_all add: analyzeVocabularyStats_def Let_def)
  have first: "uniqueWords (vocabularyStats (metrics (fst (analyzeText this text))))
     \<le> totalWords (vocabularyStats (metrics (fst (analyzeText this text))))"
  proof (cases "trim text = []")
    case True
    then show ?thesis by (simp add: analyzeText_empty getEmptyMetrics_def)
  next
    case False
    then show ?thesis using le by (simp add: analyzeText_nonempty u t)
  qed
  have "length (remdups (map toLowerCase ?ws)) = card (set (map toLowerCase ?ws))"
    by (simp only: length_remdups_card_conv)
  also have "set (map toLowerCase ?ws) =
      toLowerCase ` {w. w \<in> set (splitWhitespace text) \<and> w \<noteq> []}"
    by auto
  finally have second: "uniqueWords (analyzeVocabularyStats text) =
       card (toLowerCase ` {w. w \<in> set (splitWhitespace text) \<and> w \<noteq> []})"
    using u by simp
  have third: "totalWords (analyzeVocabularyStats text) =
       length (filter (\<lambda>w. w \<noteq> []) (splitWhitespace text))"
    using t by simp
  from first second third show ?thesis by blast
qed

text \<open>
  Claim C10: the score of every result is at most 55, the sum 15 + 10 + 10 + 20 of the four
  deltas; nothing else adds to it.
\<close>

theorem aiScore_at_most_55:
  "aiScore (fst (analyzeText this text)) \<le> 55"
proof (cases "trim text = []")
  case True
  then show ?thesis by (simp add: analyzeText_empty)
next
  case False
  then show ?thesis by (simp add: analyzeText_nonempty performDetailedAnalysis_score)
qed

end
